theory Spec2Isabelle
  imports Main
begin

section \<open>The deployment host: files, databases, service\<close>

text \<open>
  The fabfile drives a remote host and the operator's machine through shell commands.
  The embedding keeps the Python control flow function by function and gives each shell
  command it issues a meaning on an explicit model of the two machines.

  A directory tree is a list of named nodes. A file system maps a path (as the command
  line spells it, resolved against the working directory) to what lies there: a
  directory, a tar archive (its member tree, rooted at the extraction directory) or a
  database dump.
\<close>

datatype node = File string | Dir "(string \<times> node) list"

type_synonym dir = "(string \<times> node) list"

type_synonym db = "string list"

datatype entry = Directory dir | Archive dir | DumpFile db

datatype place = Remote bool | Local

text \<open>
  The commands of the fabfile, one constructor per command line; the comment gives the
  shell text. The settings that only parametrise an opaque tool (database host, port and
  user, launcher, configuration file, service account) are left out of the constructors.
\<close>

datatype cmd =
    SvnCp string              \<comment> \<open>\<^verbatim>\<open>svn cp REPO/trunk REPO/branches/VERSION -m ...\<close>\<close>
  | RmRfDirs                  \<comment> \<open>\<^verbatim>\<open>rm -Rf */\<close>\<close>
  | RmRfSvn                   \<comment> \<open>\<^verbatim>\<open>rm -Rf .svn\<close>\<close>
  | RmFAll                    \<comment> \<open>\<^verbatim>\<open>rm -f *\<close>\<close>
  | LsGrepRm                  \<comment> \<open>\<^verbatim>\<open>ls | grep tar.gz | xargs rm -f\<close>\<close>
  | SvnCo string              \<comment> \<open>\<^verbatim>\<open>svn co REPO/branches/VERSION .\<close>\<close>
  | UnlessFile string cmd     \<comment> \<open>\<^verbatim>\<open>[ -f PATH ] || CMD\<close>\<close>
  | RmRf string               \<comment> \<open>\<^verbatim>\<open>rm -Rf PATH\<close>\<close>
  | RmF string                \<comment> \<open>\<^verbatim>\<open>rm -f PATH\<close>\<close>
  | SvnExport string string   \<comment> \<open>\<^verbatim>\<open>svn export REPO/tags/TAG DEST\<close>\<close>
  | TarCreateC string string  \<comment> \<open>\<^verbatim>\<open>tar -zcvf ARCHIVE -C DIR . --exclude-vcs\<close>\<close>
  | TarCreate string string   \<comment> \<open>\<^verbatim>\<open>tar -zcvf ARCHIVE PATH --exclude-vcs\<close>\<close>
  | TarExtract string         \<comment> \<open>\<^verbatim>\<open>tar -zxvf ARCHIVE\<close>\<close>
  | PgDump string string bool     \<comment> \<open>\<^verbatim>\<open>pg_dump -f FILE -F c -O DB ...\<close>, with \<^verbatim>\<open>-w\<close> or not\<close>
  | PgRestore string string bool  \<comment> \<open>\<^verbatim>\<open>pg_restore -v -c -d DB FILE ...\<close>, with \<^verbatim>\<open>-w\<close> or not\<close>
  | Upgrade string            \<comment> \<open>\<^verbatim>\<open>su USER -c "LAUNCHER -c CONF -d DB --load=web,smile_upgrade"\<close>\<close>
  | ServiceStart string       \<comment> \<open>\<^verbatim>\<open>service NAME start\<close>\<close>
  | ServiceStop string        \<comment> \<open>\<^verbatim>\<open>service NAME stop\<close>\<close>
  | Put string string         \<comment> \<open>Fabric's \<^verbatim>\<open>put(LOCAL, REMOTE_DIR)\<close>\<close>

text \<open>
  What Fabric reports: a function of the fabfile was entered, or a command ran in a
  working directory, exited with a code, and that code was fatal or not.
\<close>

datatype event = Call string | Exec place string cmd nat bool

text \<open>
  The state of the world. \<open>exits\<close> and \<open>strftime\<close> are what the model does not decide:
  the exit code an external tool gives to the \<open>n\<close>-th reported event when nothing in the
  model makes it fail, and the reading of the clock at that moment.
\<close>

record host =
  rfs :: "string \<Rightarrow> entry option"
  lfs :: "string \<Rightarrow> entry option"
  dbs :: "string \<Rightarrow> db option"
  service_running :: bool
  svn_trunk :: dir
  svn_branches :: "string \<Rightarrow> dir option"
  svn_tags :: "string \<Rightarrow> dir option"
  trace :: "event list"
  exits :: "nat \<Rightarrow> cmd \<Rightarrow> nat"
  strftime :: "nat \<Rightarrow> string"

text \<open>Fabric's \<open>env\<close>, as far as the fabfile reads or sets it.\<close>

record env =
  svn_repository :: string
  sources_dir :: string
  backup_dir :: string
  tag_dir :: string
  odoo_service :: string
  db_password :: string
  use_sudo :: bool
  warn_only :: bool
  ok_ret_codes :: "nat list"
  cwd :: string
  lcwd :: string

datatype error = SystemExit | ImportError

type_synonym 'a fab = "host \<Rightarrow> (error + 'a) \<times> host"

subsection \<open>Paths\<close>

definition starts_with :: "char \<Rightarrow> string \<Rightarrow> bool" where
  "starts_with c s = (case s of [] \<Rightarrow> False | d # _ \<Rightarrow> d = c)"

definition ends_with :: "char \<Rightarrow> string \<Rightarrow> bool" where
  "ends_with c s = (case rev s of [] \<Rightarrow> False | d # _ \<Rightarrow> d = c)"

text \<open>\<^verbatim>\<open>os.path.join(a, b)\<close>; a relative path on a command line resolves the same way.\<close>

definition path_join :: "string \<Rightarrow> string \<Rightarrow> string" where
  "path_join a b =
     (if starts_with CHR ''/'' b then b
      else if a = [] \<or> ends_with CHR ''/'' a then a @ b
      else a @ ''/'' @ b)"

fun path_split :: "string \<Rightarrow> string list" where
  "path_split [] = [[]]"
| "path_split (c # cs) =
     (if c = CHR ''/'' then [] # path_split cs
      else (case path_split cs of [] \<Rightarrow> [[c]] | w # ws \<Rightarrow> (c # w) # ws))"

text \<open>
  The member name tar gives to a path: the leading \<^verbatim>\<open>/\<close> is removed, so an absolute
  path is stored relative, and \<^verbatim>\<open>.\<close> names the directory itself.
\<close>

definition member_path :: "string \<Rightarrow> string list" where
  "member_path p = filter (\<lambda>w. w \<noteq> [] \<and> w \<noteq> ''.'') (path_split p)"

fun nest :: "string list \<Rightarrow> dir \<Rightarrow> dir" where
  "nest [] d = d"
| "nest (c # cs) d = [(c, Dir (nest cs d))]"

subsection \<open>Directory trees\<close>

definition hidden :: "string \<Rightarrow> bool" where
  "hidden n = starts_with CHR ''.'' n"

fun is_dir :: "node \<Rightarrow> bool" where
  "is_dir (Dir _) = True"
| "is_dir (File _) = False"

text \<open>The names \<^verbatim>\<open>tar --exclude-vcs\<close> leaves out, at any depth.\<close>

definition vcs_names :: "string list" where
  "vcs_names = [''CVS'', ''RCS'', ''SCCS'', ''.git'', ''.gitignore'', ''.gitmodules'',
     ''.gitattributes'', ''.cvsignore'', ''.svn'', ''.arch-ids'', ''{arch}'',
     ''=RELEASE-ID'', ''=meta-update'', ''=update'', ''.bzr'', ''.bzrignore'',
     ''.bzrtags'', ''.hg'', ''.hgignore'', ''.hgtags'', ''_darcs'']"

fun strip_vcs_node :: "node \<Rightarrow> node" and strip_vcs :: "dir \<Rightarrow> dir" where
  "strip_vcs_node (File c) = File c"
| "strip_vcs_node (Dir es) = Dir (strip_vcs es)"
| "strip_vcs [] = []"
| "strip_vcs ((n, x) # es) =
     (if n \<in> set vcs_names then strip_vcs es else (n, strip_vcs_node x) # strip_vcs es)"

fun replace_entry :: "string \<Rightarrow> node \<Rightarrow> dir \<Rightarrow> dir" where
  "replace_entry n x [] = [(n, x)]"
| "replace_entry n x ((m, y) # es) =
     (if m = n then (n, x) # es else (m, y) # replace_entry n x es)"

text \<open>
  Unpacking a member tree over a directory: a member replaces a file of its name, and
  a member directory is unpacked into the directory of its name.
\<close>

fun unpack_node :: "node option \<Rightarrow> node \<Rightarrow> node" and unpack :: "dir \<Rightarrow> dir \<Rightarrow> dir" where
  "unpack_node old (File c) = File c"
| "unpack_node old (Dir new) =
     (case old of Some (Dir es) \<Rightarrow> Dir (unpack es new) | _ \<Rightarrow> Dir (unpack [] new))"
| "unpack es [] = es"
| "unpack es ((n, x) # new) = unpack (replace_entry n (unpack_node (map_of es n) x) es) new"

text \<open>\<^verbatim>\<open>grep tar.gz\<close>: the name has \<^verbatim>\<open>tar\<close>, any one character, \<^verbatim>\<open>gz\<close>.\<close>

fun grep_tar_gz :: "string \<Rightarrow> bool" where
  "grep_tar_gz [] = False"
| "grep_tar_gz (c # cs) =
     ((c = CHR ''t'' \<and>
       (case cs of a # r # _ # g # z # _ \<Rightarrow> a = CHR ''a'' \<and> r = CHR ''r'' \<and> g = CHR ''g'' \<and> z = CHR ''z''
        | _ \<Rightarrow> False))
      \<or> grep_tar_gz cs)"

section \<open>What the commands do\<close>

text \<open>
  \<open>sh p wd r c h\<close> runs command \<open>c\<close> at place \<open>p\<close> in working directory \<open>wd\<close> and gives
  its exit code and the new state. Where the model itself makes the command fail (a
  missing directory, an existing destination) it says so; otherwise the tool exits with
  the code \<open>r\<close> the world supplies, and does its work only when \<open>r\<close> is 0. The upgrade
  is the exception: it leaves its mark on the database whether it succeeds or not.
\<close>

definition get_fs :: "place \<Rightarrow> host \<Rightarrow> string \<Rightarrow> entry option" where
  "get_fs p h = (case p of Local \<Rightarrow> lfs h | Remote _ \<Rightarrow> rfs h)"

definition set_fs :: "place \<Rightarrow> (string \<Rightarrow> entry option) \<Rightarrow> host \<Rightarrow> host" where
  "set_fs p f h = (case p of Local \<Rightarrow> h\<lparr>lfs := f\<rparr> | Remote _ \<Rightarrow> h\<lparr>rfs := f\<rparr>)"

text \<open>\<^verbatim>\<open>[ -f PATH ]\<close>: something is there and it is a regular file.\<close>

definition is_regular_file :: "entry option \<Rightarrow> bool" where
  "is_regular_file x =
     (case x of Some (Archive _) \<Rightarrow> True | Some (DumpFile _) \<Rightarrow> True | _ \<Rightarrow> False)"

definition in_cwd :: "place \<Rightarrow> string \<Rightarrow> nat \<Rightarrow> (dir \<Rightarrow> nat \<times> dir) \<Rightarrow> host \<Rightarrow> nat \<times> host" where
  "in_cwd p wd r f h =
     (case get_fs p h wd of
        Some (Directory d) \<Rightarrow>
          (if r \<noteq> 0 then (r, h)
           else (fst (f d), set_fs p ((get_fs p h)(wd \<mapsto> Directory (snd (f d)))) h))
      | _ \<Rightarrow> (1, h))"

text \<open>
  The four commands of \<^verbatim>\<open>_clean_sources_dir\<close>. A glob does not match a name that
  starts with a dot; \<^verbatim>\<open>*/\<close> matches directories only; \<^verbatim>\<open>rm -f\<close> refuses a directory,
  and \<^verbatim>\<open>ls\<close> does not list a hidden name.
\<close>

definition rm_rf_dirs :: "dir \<Rightarrow> nat \<times> dir" where
  "rm_rf_dirs d = (0, filter (\<lambda>(n, x). \<not> (is_dir x \<and> \<not> hidden n)) d)"

definition rm_rf_svn :: "dir \<Rightarrow> nat \<times> dir" where
  "rm_rf_svn d = (0, filter (\<lambda>(n, x). n \<noteq> ''.svn'') d)"

definition rm_f_all :: "dir \<Rightarrow> nat \<times> dir" where
  "rm_f_all d =
     (if list_ex (\<lambda>(n, x). is_dir x \<and> \<not> hidden n) d then 1 else 0,
      filter (\<lambda>(n, x). hidden n \<or> is_dir x) d)"

definition ls_grep_rm :: "dir \<Rightarrow> nat \<times> dir" where
  "ls_grep_rm d =
     (if list_ex (\<lambda>(n, x). \<not> hidden n \<and> grep_tar_gz n \<and> is_dir x) d then 123 else 0,
      filter (\<lambda>(n, x). \<not> (\<not> hidden n \<and> grep_tar_gz n \<and> \<not> is_dir x)) d)"

definition basename :: "string \<Rightarrow> string" where
  "basename p = last (path_split p)"

fun sh :: "place \<Rightarrow> string \<Rightarrow> nat \<Rightarrow> cmd \<Rightarrow> host \<Rightarrow> nat \<times> host" where
  "sh p wd r (SvnCp version) h =
     (if r \<noteq> 0 then (r, h)
      else (case svn_branches h version of
              None \<Rightarrow> (0, h\<lparr>svn_branches := (svn_branches h)(version \<mapsto> svn_trunk h)\<rparr>)
            | Some b \<Rightarrow>
                (if map_of b ''trunk'' \<noteq> None then (1, h)
                 else (0, h\<lparr>svn_branches :=
                        (svn_branches h)(version \<mapsto> b @ [(''trunk'', Dir (svn_trunk h))])\<rparr>))))"
| "sh p wd r RmRfDirs h = in_cwd p wd r rm_rf_dirs h"
| "sh p wd r RmRfSvn h = in_cwd p wd r rm_rf_svn h"
| "sh p wd r RmFAll h = in_cwd p wd r rm_f_all h"
| "sh p wd r LsGrepRm h = in_cwd p wd r ls_grep_rm h"
| "sh p wd r (SvnCo version) h =
     (case svn_branches h version of
        None \<Rightarrow> (1, h)
      | Some b \<Rightarrow> in_cwd p wd r (\<lambda>d. (0, unpack d (b @ [(''.svn'', Dir [])]))) h)"
| "sh p wd r (UnlessFile path c) h =
     (if is_regular_file (get_fs p h (path_join wd path)) then (0, h) else sh p wd r c h)"
| "sh p wd r (RmRf path) h =
     (if r \<noteq> 0 then (r, h)
      else (0, set_fs p ((get_fs p h)(path_join wd path := None)) h))"
| "sh p wd r (RmF path) h =
     (case get_fs p h (path_join wd path) of
        Some (Directory _) \<Rightarrow> (1, h)
      | _ \<Rightarrow> (if r \<noteq> 0 then (r, h)
              else (0, set_fs p ((get_fs p h)(path_join wd path := None)) h)))"
| "sh p wd r (SvnExport tag dest) h =
     (if get_fs p h (path_join wd dest) \<noteq> None then (1, h)
      else if r \<noteq> 0 then (r, h)
      else (case svn_tags h tag of
              None \<Rightarrow> (1, h)
            | Some t \<Rightarrow> (0, set_fs p ((get_fs p h)(path_join wd dest \<mapsto> Directory t)) h)))"
| "sh p wd r (TarCreateC archive d) h =
     (case get_fs p h (path_join wd d) of
        Some (Directory t) \<Rightarrow>
          (if r \<noteq> 0 then (r, h)
           else (0, set_fs p ((get_fs p h)(path_join wd archive \<mapsto> Archive (strip_vcs t))) h))
      | _ \<Rightarrow> (2, h))"
| "sh p wd r (TarCreate archive path) h =
     (case get_fs p h (path_join wd path) of
        Some (Directory t) \<Rightarrow>
          (if r \<noteq> 0 then (r, h)
           else (0, set_fs p ((get_fs p h)(path_join wd archive \<mapsto>
                     Archive (nest (member_path path) (strip_vcs t)))) h))
      | _ \<Rightarrow> (2, h))"
| "sh p wd r (TarExtract archive) h =
     (case get_fs p h (path_join wd archive) of
        Some (Archive m) \<Rightarrow> in_cwd p wd r (\<lambda>d. (0, unpack d m)) h
      | _ \<Rightarrow> (2, h))"
| "sh p wd r (PgDump file db_name w) h =
     (case dbs h db_name of
        None \<Rightarrow> (1, h)
      | Some c \<Rightarrow>
          (if r \<noteq> 0 then (r, h)
           else (0, set_fs p ((get_fs p h)(path_join wd file \<mapsto> DumpFile c)) h)))"
| "sh p wd r (PgRestore db_name file w) h =
     (case (get_fs p h (path_join wd file), dbs h db_name) of
        (Some (DumpFile c), Some _) \<Rightarrow>
          (if r \<noteq> 0 then (r, h) else (0, h\<lparr>dbs := (dbs h)(db_name \<mapsto> c)\<rparr>))
      | _ \<Rightarrow> (1, h))"
| "sh p wd r (Upgrade db_name) h =
     (case dbs h db_name of
        None \<Rightarrow> (if r = 0 then 1 else r, h)
      | Some c \<Rightarrow>
          (r, h\<lparr>dbs := (dbs h)(db_name \<mapsto>
                  c @ [if r = 0 then ''upgraded'' else ''upgrade failed''])\<rparr>))"
| "sh p wd r (ServiceStart name) h =
     (if r \<noteq> 0 then (r, h) else (0, h\<lparr>service_running := True\<rparr>))"
| "sh p wd r (ServiceStop name) h =
     (if r \<noteq> 0 then (r, h) else (0, h\<lparr>service_running := False\<rparr>))"
| "sh p wd r (Put path remote_dir) h =
     (if is_regular_file (lfs h (path_join wd path)) then
        (if r \<noteq> 0 then (r, h)
         else (0, h\<lparr>rfs := (rfs h)(path_join remote_dir (basename path) := lfs h (path_join wd path))\<rparr>))
      else (1, h))"

section \<open>Fabric\<close>

text \<open>
  Fabric 1.6 and later: a command whose exit code is not in \<^verbatim>\<open>env.ok_ret_codes\<close> has
  failed; a failure aborts the run (\<^verbatim>\<open>SystemExit\<close>) unless \<^verbatim>\<open>env.warn_only\<close> is set,
  and then it is only warned about. The caller gets the exit code
  (\<^verbatim>\<open>result.return_code\<close>). The state an aborted run leaves behind is kept.
\<close>

definition execute :: "env \<Rightarrow> place \<Rightarrow> string \<Rightarrow> cmd \<Rightarrow> nat fab" where
  "execute e p wd c h =
     (let res = sh p wd (exits h (length (trace h)) c) c h;
          rc = fst res;
          fatal = (rc \<notin> set (ok_ret_codes e) \<and> \<not> warn_only e)
      in (if fatal then Inl SystemExit else Inr rc,
          (snd res)\<lparr>trace := trace (snd res) @ [Exec p wd c rc fatal]\<rparr>))"

definition run :: "env \<Rightarrow> cmd \<Rightarrow> nat fab" where
  "run e c = execute e (Remote False) (cwd e) c"

definition sudo :: "env \<Rightarrow> cmd \<Rightarrow> nat fab" where
  "sudo e c = execute e (Remote True) (cwd e) c"

definition local :: "env \<Rightarrow> cmd \<Rightarrow> nat fab" where
  "local e c = execute e Local (lcwd e) c"

text \<open>\<^verbatim>\<open>put\<close> has no exit code of its own: a transfer that fails is a failure.\<close>

definition put :: "env \<Rightarrow> string \<Rightarrow> string \<Rightarrow> nat fab" where
  "put e path remote_path h =
     (let c = Put path (path_join (cwd e) remote_path);
          res = sh Local (lcwd e) (exits h (length (trace h)) c) c h;
          rc = fst res;
          fatal = (rc \<noteq> 0 \<and> \<not> warn_only e)
      in (if fatal then Inl SystemExit else Inr rc,
          (snd res)\<lparr>trace := trace (snd res) @ [Exec Local (lcwd e) c rc fatal]\<rparr>))"

text \<open>\<^verbatim>\<open>cd\<close> and \<^verbatim>\<open>lcd\<close>: an absolute path replaces the directory, a relative one extends it.\<close>

definition cd :: "string \<Rightarrow> env \<Rightarrow> env" where
  "cd path e =
     e\<lparr>cwd := (if cwd e \<noteq> [] \<and> \<not> starts_with CHR ''/'' path \<and> \<not> starts_with CHR ''~'' path
               then cwd e @ ''/'' @ path else path)\<rparr>"

definition lcd :: "string \<Rightarrow> env \<Rightarrow> env" where
  "lcd path e =
     e\<lparr>lcwd := (if lcwd e \<noteq> [] \<and> \<not> starts_with CHR ''/'' path \<and> \<not> starts_with CHR ''~'' path
                then lcwd e @ ''/'' @ path else path)\<rparr>"

text \<open>Sequencing: an abort ends the run where it happens.\<close>

definition fab_return :: "'a \<Rightarrow> 'a fab" where
  "fab_return v h = (Inr v, h)"

definition fab_bind :: "'a fab \<Rightarrow> ('a \<Rightarrow> 'b fab) \<Rightarrow> 'b fab" where
  "fab_bind m f h = (case m h of (Inl x, h') \<Rightarrow> (Inl x, h') | (Inr v, h') \<Rightarrow> f v h')"

definition fab_seq :: "'a fab \<Rightarrow> 'b fab \<Rightarrow> 'b fab" where
  "fab_seq m n = fab_bind m (\<lambda>_. n)"

text \<open>A statement whose value is dropped.\<close>

definition stmt :: "'a fab \<Rightarrow> unit fab" where
  "stmt m = fab_bind m (\<lambda>_. fab_return ())"

text \<open>The entry of a function of the fabfile, for the record only.\<close>

definition called :: "string \<Rightarrow> unit fab" where
  "called name h = (Inr (), h\<lparr>trace := trace h @ [Call name]\<rparr>)"

text \<open>\<^verbatim>\<open>time.strftime('%Y%m%d_%H%M%S')\<close>\<close>

definition now :: "string fab" where
  "now h = (Inr (strftime h (length (trace h))), h)"

section \<open>fabdecorator.py\<close>

text \<open>
  A decorator changes the settings its function runs under. \<^verbatim>\<open>smile_settings\<close> merges
  the per-host configuration into \<open>env\<close> before a task starts; the tasks below take the
  resolved \<open>env\<close> as their argument.
\<close>

definition smile_path :: "(env \<Rightarrow> string) \<Rightarrow> bool \<Rightarrow> (env \<Rightarrow> 'a) \<Rightarrow> env \<Rightarrow> 'a" where
  "smile_path dir is_local func e =
     (if is_local then func (lcd (dir e) e) else func (cd (dir e) e))"

definition smile_secure :: "nat list \<Rightarrow> (env \<Rightarrow> 'a) \<Rightarrow> env \<Rightarrow> 'a" where
  "smile_secure codes func e = func (e\<lparr>warn_only := (codes = []), ok_ret_codes := codes\<rparr>)"

section \<open>fabfile.py\<close>

definition sudo_or_run :: "env \<Rightarrow> cmd \<Rightarrow> nat fab" where
  "sudo_or_run e c = (if use_sudo e then sudo e c else run e c)"

definition create_branch :: "string \<Rightarrow> env \<Rightarrow> unit fab" where
  "create_branch version e =
     fab_seq (called ''create_branch'')
       (stmt (sudo_or_run e (SvnCp version)))"

text \<open>\<^verbatim>\<open>_clean_sources_dir\<close> in the source.\<close>

definition clean_sources_dir :: "env \<Rightarrow> unit fab" where
  "clean_sources_dir =
     smile_path sources_dir False (\<lambda>e.
       fab_seq (called ''_clean_sources_dir'')
      (fab_seq (sudo_or_run e RmRfDirs)
      (fab_seq (sudo_or_run e RmRfSvn)
      (fab_seq (sudo_or_run e RmFAll)
               (stmt (sudo_or_run e LsGrepRm))))))"

definition checkout_branch :: "string \<Rightarrow> env \<Rightarrow> unit fab" where
  "checkout_branch version =
     smile_path sources_dir False (\<lambda>e.
       fab_seq (called ''checkout_branch'')
      (fab_seq (clean_sources_dir e)
               (stmt (sudo_or_run e (SvnCo version)))))"

definition export_tag :: "string \<Rightarrow> bool \<Rightarrow> env \<Rightarrow> unit fab" where
  "export_tag tag force_export_tag =
     smile_path tag_dir True (\<lambda>e.
       fab_seq (called ''export_tag'')
      (fab_seq (if force_export_tag then stmt (local e (UnlessFile tag (RmRf tag)))
                else fab_return ())
               (stmt (local e (UnlessFile tag (SvnExport tag tag))))))"

definition compress_archive :: "string \<Rightarrow> bool \<Rightarrow> env \<Rightarrow> string fab" where
  "compress_archive tag force_export_tag =
     smile_path tag_dir True (\<lambda>e.
       let archive = ''odoo-'' @ tag @ ''.tag.gz'' in
       fab_seq (called ''compress_archive'')
      (fab_seq (if force_export_tag then stmt (local e (UnlessFile archive (RmF archive)))
                else fab_return ())
      (fab_seq (local e (UnlessFile archive (TarCreateC archive tag)))
               (fab_return archive))))"

definition put_archive :: "string \<Rightarrow> env \<Rightarrow> unit fab" where
  "put_archive archive =
     smile_path tag_dir True (\<lambda>e.
       fab_seq (called ''put_archive'')
               (stmt (put e archive (backup_dir e))))"

definition uncompress_archive :: "string \<Rightarrow> env \<Rightarrow> unit fab" where
  "uncompress_archive archive =
     smile_path sources_dir False (\<lambda>e.
       fab_seq (called ''uncompress_archive'')
      (fab_seq (clean_sources_dir e)
               (stmt (sudo_or_run e (TarExtract (path_join (backup_dir e) archive))))))"

definition dump_database :: "string \<Rightarrow> env \<Rightarrow> string fab" where
  "dump_database db_name =
     smile_path backup_dir False (\<lambda>e.
       fab_seq (called ''dump_database'')
      (fab_bind now (\<lambda>ts.
       let filename = db_name @ ''_'' @ ts @ ''.dump'' in
       fab_seq (sudo_or_run e (PgDump filename db_name (db_password e \<noteq> [])))
               (fab_return (path_join (backup_dir e) filename)))))"

definition restore_database :: "string \<Rightarrow> string \<Rightarrow> env \<Rightarrow> unit fab" where
  "restore_database db_name backup =
     smile_secure [] (smile_path backup_dir False (\<lambda>e.
       fab_seq (called ''restore_database'')
               (stmt (sudo_or_run e (PgRestore db_name backup (db_password e \<noteq> []))))))"

text \<open>Python's \<^verbatim>\<open>if backup:\<close> on \<^verbatim>\<open>None\<close> or a string.\<close>

definition truthy :: "string option \<Rightarrow> bool" where
  "truthy backup = (case backup of None \<Rightarrow> False | Some b \<Rightarrow> b \<noteq> [])"

definition dump_or_restore_database :: "string \<Rightarrow> string option \<Rightarrow> env \<Rightarrow> string fab" where
  "dump_or_restore_database db_name backup e =
     fab_seq (called ''dump_or_restore_database'')
       (if truthy backup then
          fab_seq (restore_database db_name (the backup) e)
                  (fab_return (the backup))
        else dump_database db_name e)"

definition upgrade_database :: "string \<Rightarrow> env \<Rightarrow> nat fab" where
  "upgrade_database db_name =
     smile_secure [] (smile_path sources_dir False (\<lambda>e.
       fab_seq (called ''upgrade_database'')
               (sudo_or_run e (Upgrade db_name))))"

definition start_service :: "env \<Rightarrow> unit fab" where
  "start_service e =
     fab_seq (called ''start_service'')
             (stmt (sudo_or_run e (ServiceStart (odoo_service e))))"

definition stop_service :: "env \<Rightarrow> unit fab" where
  "stop_service =
     smile_secure [0, 1] (\<lambda>e.
       fab_seq (called ''stop_service'')
               (stmt (sudo_or_run e (ServiceStop (odoo_service e)))))"

definition create_savepoint :: "env \<Rightarrow> string fab" where
  "create_savepoint =
     smile_path backup_dir False (\<lambda>e.
       fab_seq (called ''create_savepoint'')
      (fab_bind now (\<lambda>ts.
       let savepoint = ''savepoint_'' @ ts @ ''.tag.gz'' in
       fab_seq (sudo_or_run e (TarCreate savepoint (sources_dir e)))
               (fab_return savepoint))))"

definition rollback :: "string \<Rightarrow> string \<Rightarrow> string \<Rightarrow> env \<Rightarrow> unit fab" where
  "rollback savepoint db_name backup =
     smile_path backup_dir False (\<lambda>e.
       fab_seq (called ''rollback'')
      (fab_seq (dump_or_restore_database db_name (Some backup) e)
      (fab_seq (clean_sources_dir e)
               (uncompress_archive savepoint e))))"

definition drop_savepoint :: "string \<Rightarrow> env \<Rightarrow> unit fab" where
  "drop_savepoint savepoint =
     smile_path backup_dir False (\<lambda>e.
       fab_seq (called ''drop_savepoint'')
               (stmt (sudo_or_run e (RmF savepoint))))"

definition deploy_for_internal_testing ::
    "string \<Rightarrow> string \<Rightarrow> string option \<Rightarrow> bool \<Rightarrow> env \<Rightarrow> unit fab" where
  "deploy_for_internal_testing version db_name backup do_not_create_branch e =
     fab_seq (called ''deploy_for_internal_testing'')
    (fab_seq (if \<not> do_not_create_branch then create_branch version e else fab_return ())
    (fab_seq (stop_service e)
    (fab_bind (create_savepoint e) (\<lambda>savepoint.
     fab_bind (dump_or_restore_database db_name backup e) (\<lambda>backup.
     fab_seq (checkout_branch version e)
    (fab_bind (upgrade_database db_name e) (\<lambda>result.
     fab_seq (if result \<noteq> 0 then rollback savepoint db_name backup e else fab_return ())
    (fab_seq (drop_savepoint savepoint e)
             (start_service e)))))))))"

definition deploy_for_customer_testing ::
    "string \<Rightarrow> string \<Rightarrow> string option \<Rightarrow> bool \<Rightarrow> env \<Rightarrow> unit fab" where
  "deploy_for_customer_testing tag db_name backup force_export_tag e =
     fab_seq (called ''deploy_for_customer_testing'')
    (fab_seq (export_tag tag force_export_tag e)
    (fab_bind (compress_archive tag force_export_tag e) (\<lambda>archive.
     fab_seq (put_archive archive e)
    (fab_seq (stop_service e)
    (fab_bind (create_savepoint e) (\<lambda>savepoint.
     fab_bind (dump_or_restore_database db_name backup e) (\<lambda>backup.
     fab_seq (uncompress_archive archive e)
    (fab_bind (upgrade_database db_name e) (\<lambda>result.
     fab_seq (if result \<noteq> 0 then rollback savepoint db_name backup e else fab_return ())
    (fab_seq (drop_savepoint savepoint e)
             (start_service e)))))))))))"

section \<open>A concrete host\<close>

text \<open>
  The default settings of \<^verbatim>\<open>fabdecorator.DEFAULTS\<close> with Fabric's own defaults
  (\<^verbatim>\<open>warn_only = False\<close>, \<^verbatim>\<open>ok_ret_codes = [0]\<close>), and a host with a checked-out
  source tree, one database and a running service, on which every tool succeeds.
\<close>

definition default_env :: env where
  "default_env = \<lparr>svn_repository = ''svn://repo'', sources_dir = ''/opt/openerp'',
     backup_dir = ''/home/postgres'', tag_dir = ''/tmp'', odoo_service = ''openerp-server'',
     db_password = [], use_sudo = False, warn_only = False, ok_ret_codes = [0],
     cwd = [], lcwd = []\<rparr>"

definition demo_host :: host where
  "demo_host = \<lparr>
     rfs = [''/opt/openerp'' \<mapsto> Directory [(''server.py'', File ''old''), (''.svn'', Dir [])]],
     lfs = Map.empty,
     dbs = [''demo'' \<mapsto> [''v1'']],
     service_running = True,
     svn_trunk = [(''server.py'', File ''new'')],
     svn_branches = [''1.2'' \<mapsto> [(''server.py'', File ''new'')]],
     svn_tags = [''v3.0'' \<mapsto> [(''server.py'', File ''new'')]],
     trace = [],
     exits = (\<lambda>n c. 0),
     strftime = (\<lambda>n. ''20230101_000000'')\<rparr>"

text \<open>The same host with a dump in the backup directory and a \<^verbatim>\<open>pg_restore\<close> that exits with 2.\<close>

definition restore_fails_host :: host where
  "restore_fails_host = demo_host\<lparr>
     rfs := (rfs demo_host)(''/home/postgres/demo.dump'' \<mapsto> DumpFile [''v0'']),
     exits := (\<lambda>n c. case c of PgRestore _ _ _ \<Rightarrow> 2 | _ \<Rightarrow> 0)\<rparr>"

section \<open>Properties\<close>

subsection \<open>Commands and their reports\<close>

lemma sh_trace: "trace (snd (sh p wd r c h)) = trace h"
  by (induction c arbitrary: h)
     (auto simp: in_cwd_def set_fs_def split: option.splits entry.splits place.splits prod.splits if_splits)

lemma execute_eq:
  "execute e p wd c h =
     (if fst (sh p wd (exits h (length (trace h)) c) c h) \<notin> set (ok_ret_codes e) \<and> \<not> warn_only e
      then Inl SystemExit else Inr (fst (sh p wd (exits h (length (trace h)) c) c h)),
      (snd (sh p wd (exits h (length (trace h)) c) c h))
        \<lparr>trace := trace h @ [Exec p wd c (fst (sh p wd (exits h (length (trace h)) c) c h))
           (fst (sh p wd (exits h (length (trace h)) c) c h) \<notin> set (ok_ret_codes e) \<and> \<not> warn_only e)]\<rparr>)"
  by (simp add: execute_def Let_def sh_trace)

subsection \<open>Tolerated exit codes\<close>

lemma stop_service_result:
  "fst (stop_service e h) =
     (if exits h (Suc (length (trace h))) (ServiceStop (odoo_service e)) \<in> {0, 1}
      then Inr () else Inl SystemExit)"
  by (auto simp: stop_service_def smile_secure_def
      fab_seq_def fab_bind_def called_def stmt_def fab_return_def sudo_or_run_def run_def sudo_def
      execute_eq)

lemma restore_database_result:
  "fst (restore_database db_name backup e h) = Inr ()"
  by (simp add: restore_database_def smile_secure_def smile_path_def cd_def
      fab_seq_def fab_bind_def called_def stmt_def fab_return_def sudo_or_run_def run_def sudo_def
      execute_eq del: sh.simps)

text \<open>
  C9, as the code has it. \<^verbatim>\<open>stop_service\<close> runs under \<^verbatim>\<open>smile_secure([0, 1])\<close>: it returns
  when \<^verbatim>\<open>service ... stop\<close> exits with 0 or 1 and aborts on any other code.
  \<^verbatim>\<open>restore_database\<close> runs under \<^verbatim>\<open>smile_secure()\<close>, that is with an empty list of
  accepted codes and \<^verbatim>\<open>warn_only\<close> set: it returns whatever \<^verbatim>\<open>pg_restore\<close> exits with, and
  no exit code is fatal.
\<close>

theorem stop_and_restore_tolerance:
  "fst (stop_service e h) =
     (if exits h (Suc (length (trace h))) (ServiceStop (odoo_service e)) \<in> {0, 1}
      then Inr () else Inl SystemExit)
   \<and> fst (restore_database db_name backup e h') = Inr ()"
  by (simp only: stop_service_result restore_database_result simp_thms)

theorem stop_and_restore_tolerance_witness:
  "fst (stop_service default_env demo_host) = Inr ()
   \<and> fst (restore_database ''demo'' ''demo.dump'' default_env restore_fails_host) = Inr ()"
  using stop_and_restore_tolerance [of default_env demo_host "''demo''" "''demo.dump''" restore_fails_host]
  by (simp add: demo_host_def)

text \<open>
  C9 as stated fails for \<^verbatim>\<open>restore_database\<close>: \<^verbatim>\<open>pg_restore\<close> exits with 2, which is not
  in the (empty) list of codes the decorator accepts, and the call still returns.
\<close>

theorem restore_database_exit_2_is_not_fatal:
  "(2::nat) \<notin> set []
   \<and> restore_database ''demo'' ''demo.dump'' default_env restore_fails_host =
       (Inr (), restore_fails_host\<lparr>trace :=
          [Call ''restore_database'',
           Exec (Remote False) ''/home/postgres'' (PgRestore ''demo'' ''demo.dump'' False) 2 False]\<rparr>)"
  by (simp add: restore_database_def smile_secure_def smile_path_def cd_def
      fab_seq_def fab_bind_def called_def stmt_def fab_return_def sudo_or_run_def run_def sudo_def
      execute_eq default_env_def restore_fails_host_def demo_host_def starts_with_def
      ends_with_def path_join_def get_fs_def)

end
